theory Spec2Isabelle
  imports Complex_Main "HOL-Library.Multiset"
begin

section \<open>Card-based leaf measurement: the model\<close>

text \<open>
  The development embeds the geometric part of \<^verbatim>\<open>apps/server/app/api/harvest.py\<close>:
  \<^verbatim>\<open>order_points\<close>, \<^verbatim>\<open>apply_quad_warp\<close>, \<^verbatim>\<open>detect_credit_card\<close> and the endpoint
  \<^verbatim>\<open>measure_leaf_length\<close>.

  Python floats (and numpy's float32) are idealised as \<^typ>\<open>real\<close>: \<^verbatim>\<open>np.sqrt\<close> is
  \<^const>\<open>sqrt\<close>, and \<^verbatim>\<open>round(x, 1)\<close> is rounding to the nearest tenth with ties to the
  even tenth. Every concrete input used below has coordinates that float32 represents
  exactly. The calls into OpenCV that work on pixel content are not computed: a contour
  is given by the values OpenCV returns for it, and a warp by the arguments that reach
  \<^verbatim>\<open>cv2.getPerspectiveTransform\<close> and \<^verbatim>\<open>cv2.warpPerspective\<close>.
\<close>

subsection \<open>Points, distances, errors\<close>

datatype point = Point (px: real) (py: real)

text \<open>
  Each constructor is one \<^verbatim>\<open>raise\<close> of the source, named after its message:
  \<^verbatim>\<open>ValueError("Expected 4 points, got n")\<close>,
  \<^verbatim>\<open>ValueError("card_corners must contain exactly 4 points")\<close>,
  \<^verbatim>\<open>ValueError("Must provide 1-3 leaf measurements")\<close>,
  \<^verbatim>\<open>ValueError("Leaf i must have at least 3 points for curve tracing")\<close>,
  \<^verbatim>\<open>ValueError("crop_quad must contain exactly 4 points")\<close>,
  \<^verbatim>\<open>HTTPException(400, "Failed to decode image")\<close>,
  \<^verbatim>\<open>ValueError("Invalid card calibration: card width cannot be zero")\<close>.
\<close>

datatype error =
    Expected_4_points nat
  | Card_corners_count
  | Leaf_count
  | Leaf_too_few_points nat
  | Crop_quad_count
  | Failed_to_decode
  | Invalid_card_calibration

text \<open>\<^verbatim>\<open>np.sqrt((p2.x - p1.x) ** 2 + (p2.y - p1.y) ** 2)\<close>, also \<^verbatim>\<open>np.linalg.norm(p2 - p1)\<close>.\<close>

definition segment_distance :: "point \<Rightarrow> point \<Rightarrow> real" where
  "segment_distance p1 p2 = sqrt ((px p2 - px p1)\<^sup>2 + (py p2 - py p1)\<^sup>2)"

text \<open>\<^verbatim>\<open>int(r)\<close> on a float: truncation towards zero.\<close>

definition py_int :: "real \<Rightarrow> int" where
  "py_int r = (if 0 \<le> r then \<lfloor>r\<rfloor> else \<lceil>r\<rceil>)"

text \<open>\<^verbatim>\<open>round(r, 1)\<close>: the nearest multiple of 0.1, a tie going to the even one.\<close>

definition round_half_even :: "real \<Rightarrow> int" where
  "round_half_even r =
     (let f = \<lfloor>r\<rfloor>; d = r - of_int f
      in if d < 1 / 2 then f else if 1 / 2 < d then f + 1 else if even f then f else f + 1)"

definition py_round1 :: "real \<Rightarrow> real" where
  "py_round1 r = of_int (round_half_even (r * 10)) / 10"

subsection \<open>order_points\<close>

text \<open>
  \<^verbatim>\<open>np.argmin\<close> and \<^verbatim>\<open>np.argmax\<close> return the index of the first occurrence of the
  extreme value.
\<close>

primrec first_index :: "real list \<Rightarrow> real \<Rightarrow> nat" where
  "first_index [] v = 0"
| "first_index (x # xs) v = (if x = v then 0 else Suc (first_index xs v))"

definition argmin :: "real list \<Rightarrow> nat" where
  "argmin xs = first_index xs (Min (set xs))"

definition argmax :: "real list \<Rightarrow> nat" where
  "argmax xs = first_index xs (Max (set xs))"

definition order_points :: "point list \<Rightarrow> error + point list" where
  "order_points pts =
     (if length pts \<noteq> 4 then Inl (Expected_4_points (length pts))
      else
        let s = map (\<lambda>p. px p + py p) pts;
            tl = pts ! argmin s;
            br = pts ! argmax s;
            diff = map (\<lambda>p. py p - px p) pts;
            tr = pts ! argmin diff;
            bl = pts ! argmax diff
        in Inr [tl, tr, br, bl])"

subsection \<open>apply_quad_warp\<close>

text \<open>
  The result of \<^verbatim>\<open>apply_quad_warp\<close> is what OpenCV returns for the source corners, the
  destination corners and the output size \<^verbatim>\<open>(max_width, max_height)\<close> computed here; the
  record holds these three arguments.
\<close>

record warp_call =
  src_points :: "point list"
  dst_points :: "point list"
  dsize :: "int \<times> int"

definition apply_quad_warp :: "point list \<Rightarrow> error + warp_call" where
  "apply_quad_warp quad_points =
     (case order_points quad_points of
        Inl e \<Rightarrow> Inl e
      | Inr ordered \<Rightarrow>
          let tl = ordered ! 0; tr = ordered ! 1; br = ordered ! 2; bl = ordered ! 3;
              width_top = segment_distance tl tr;
              width_bottom = segment_distance bl br;
              max_width = py_int (max width_top width_bottom);
              height_left = segment_distance tl bl;
              height_right = segment_distance tr br;
              max_height = py_int (max height_left height_right)
          in Inr \<lparr>src_points = ordered,
                  dst_points =
                    [Point 0 0,
                     Point (of_int (max_width - 1)) 0,
                     Point (of_int (max_width - 1)) (of_int (max_height - 1)),
                     Point 0 (of_int (max_height - 1))],
                  dsize = (max_width, max_height)\<rparr>)"

subsection \<open>detect_credit_card\<close>

text \<open>
  A contour as OpenCV describes it: \<^verbatim>\<open>cv2.contourArea\<close>, the polygon of
  \<^verbatim>\<open>cv2.approxPolyDP\<close> and the width and height of \<^verbatim>\<open>cv2.boundingRect\<close> of that polygon.
\<close>

record contour =
  contourArea :: real
  approx :: "point list"
  boundingRect :: "int \<times> int"

definition TARGET_ASPECT_RATIO :: real where
  "TARGET_ASPECT_RATIO = 85.60 / 53.98"

definition ASPECT_RATIO_TOLERANCE :: real where
  "ASPECT_RATIO_TOLERANCE = 0.3"

definition aspect_ratio :: "contour \<Rightarrow> real" where
  "aspect_ratio c = (case boundingRect c of (w, h) \<Rightarrow> if 0 < h then of_int w / of_int h else 0)"

text \<open>The \<^verbatim>\<open>for contour in contours[:10]\<close> loop; the first accepted contour returns.\<close>

fun detect_loop :: "contour list \<Rightarrow> error + point list option" where
  "detect_loop [] = Inr None"
| "detect_loop (c # cs) =
     (if length (approx c) = 4 then
        if \<bar>aspect_ratio c - TARGET_ASPECT_RATIO\<bar> < ASPECT_RATIO_TOLERANCE then
          (case order_points (approx c) of
             Inl e \<Rightarrow> Inl e
           | Inr rect \<Rightarrow> Inr (Some rect))
        else detect_loop cs
      else detect_loop cs)"

text \<open>
  \<^verbatim>\<open>sorted(contours, key=cv2.contourArea, reverse=True)\<close> is stable: contours of equal
  area keep their order, as the stable \<^const>\<open>sort_key\<close> on the negated area does.
\<close>

definition detect_credit_card :: "contour list \<Rightarrow> error + point list option" where
  "detect_credit_card contours =
     detect_loop (take 10 (sort_key (\<lambda>c. - contourArea c) contours))"

subsection \<open>measure_leaf_length\<close>

text \<open>
  A leaf of the request is a dict with a \<^verbatim>\<open>points\<close> list (tested first) or with
  \<^verbatim>\<open>base\<close> and \<^verbatim>\<open>tip\<close>. Dicts of neither shape and points without coordinates are
  rejected by the validation loop before anything is measured; they have no value here.
\<close>

datatype leaf = Points "point list" | Base_Tip point point

datatype stage = MATURE | INTERMEDIATE | NOT_MATURE

datatype confidence = HIGH | MEDIUM | LOW

text \<open>
  The two retake messages: "Only 1 leaf measured. Measure 3 leaves for better accuracy."
  and "High variation between measurements. Try: ...".
\<close>

datatype retake = Only_1_leaf | High_variation

record measurement =
  leaf_lengths_cm :: "real list"
  avg_leaf_length_cm :: real
  stage :: stage
  confidence_status :: confidence
  retake_message :: "retake option"

definition L1 :: real where "L1 = 18.0"

definition L2 :: real where "L2 = 25.0"

definition CARD_WIDTH_MM :: real where "CARD_WIDTH_MM = 85.60"

text \<open>The validation loop over \<^verbatim>\<open>enumerate(leaf_data)\<close>; the message counts leaves from 1.\<close>

fun validate_leaves :: "nat \<Rightarrow> leaf list \<Rightarrow> error option" where
  "validate_leaves i [] = None"
| "validate_leaves i (Points ps # ls) =
     (if length ps < 3 then Some (Leaf_too_few_points (i + 1)) else validate_leaves (Suc i) ls)"
| "validate_leaves i (Base_Tip b t # ls) = validate_leaves (Suc i) ls"

text \<open>
  The optional perspective crop. \<^verbatim>\<open>decodes\<close> says whether \<^verbatim>\<open>cv2.imdecode\<close> returns an
  image. The warped image is not used afterwards; only an error can leave this step.
\<close>

definition crop_step :: "point list option \<Rightarrow> bool \<Rightarrow> error option" where
  "crop_step crop_quad decodes =
     (case crop_quad of
        None \<Rightarrow> None
      | Some crop_data \<Rightarrow>
          if length crop_data \<noteq> 4 then Some Crop_quad_count
          else if \<not> decodes then Some Failed_to_decode
          else (case apply_quad_warp crop_data of Inl e \<Rightarrow> Some e | Inr img \<Rightarrow> None))"

text \<open>
  The pixel length of one leaf: the loop \<^verbatim>\<open>for i in range(len(points) - 1)\<close> adding
  \<^verbatim>\<open>segment_distance\<close> to \<^verbatim>\<open>pixel_distance = 0.0\<close>, or the base-to-tip distance.
\<close>

definition pixel_distance :: "leaf \<Rightarrow> real" where
  "pixel_distance lf =
     (case lf of
        Points points \<Rightarrow>
          fold (\<lambda>i acc. acc + segment_distance (points ! i) (points ! (i + 1)))
            [0 ..< length points - 1] 0
      | Base_Tip base tip \<Rightarrow> segment_distance base tip)"

definition pixels_per_mm :: "point list \<Rightarrow> real" where
  "pixels_per_mm card_data = segment_distance (card_data ! 0) (card_data ! 1) / CARD_WIDTH_MM"

definition stage_of :: "real \<Rightarrow> stage" where
  "stage_of avg =
     (if L2 \<le> avg then MATURE else if L1 \<le> avg then INTERMEDIATE else NOT_MATURE)"

text \<open>The standard deviation as the source computes it, around the rounded average.\<close>

definition std_dev :: "real list \<Rightarrow> real \<Rightarrow> real" where
  "std_dev lengths mean =
     sqrt (sum_list (map (\<lambda>x. (x - mean)\<^sup>2) lengths) / of_nat (length lengths))"

definition confidence_of :: "real list \<Rightarrow> real \<Rightarrow> confidence \<times> retake option" where
  "confidence_of lengths avg =
     (if length lengths = 1 then (LOW, Some Only_1_leaf)
      else if 2 \<le> length lengths then
        if 4 \<le> std_dev lengths avg then (LOW, Some High_variation)
        else if 2 \<le> std_dev lengths avg then (MEDIUM, None)
        else (HIGH, None)
      else (HIGH, None))"

definition measure_leaf_length ::
  "point list option \<Rightarrow> bool \<Rightarrow> point list \<Rightarrow> leaf list \<Rightarrow> error + measurement" where
  "measure_leaf_length crop_quad decodes card_data leaf_data =
     (if length card_data \<noteq> 4 then Inl Card_corners_count
      else if length leaf_data < 1 \<or> 3 < length leaf_data then Inl Leaf_count
      else
        case validate_leaves 0 leaf_data of
          Some e \<Rightarrow> Inl e
        | None \<Rightarrow>
            (case crop_step crop_quad decodes of
               Some e \<Rightarrow> Inl e
             | None \<Rightarrow>
                 if pixels_per_mm card_data \<le> 0 then Inl Invalid_card_calibration
                 else
                   let lengths =
                         map (\<lambda>lf. py_round1 (pixel_distance lf / pixels_per_mm card_data / 10.0))
                           leaf_data;
                       avg = py_round1 (sum_list lengths / of_nat (length lengths));
                       (conf, msg) = confidence_of lengths avg
                   in Inr \<lparr>leaf_lengths_cm = lengths,
                           avg_leaf_length_cm = avg,
                           stage = stage_of avg,
                           confidence_status = conf,
                           retake_message = msg\<rparr>))"

subsection \<open>Notions used to state the properties\<close>

text \<open>A pixel position as a point of the Euclidean plane.\<close>

definition to_complex :: "point \<Rightarrow> complex" where
  "to_complex p = Complex (px p) (py p)"


text \<open>The per-leaf lengths and their average, as \<^const>\<open>measure_leaf_length\<close> aggregates them.\<close>

definition rounded_lengths :: "point list \<Rightarrow> leaf list \<Rightarrow> real list" where
  "rounded_lengths card_data leaf_data =
     map (\<lambda>lf. py_round1 (pixel_distance lf / pixels_per_mm card_data / 10)) leaf_data"

definition rounded_average :: "real list \<Rightarrow> real" where
  "rounded_average lengths = py_round1 (sum_list lengths / of_nat (length lengths))"

text \<open>
  The four extremes that \<^const>\<open>order_points\<close> selects are each attained by exactly one of
  the points: no tie for the smallest or largest sum, nor for the smallest or largest
  difference.
\<close>

definition unique_extremes :: "point list \<Rightarrow> bool" where
  "unique_extremes pts =
     (let s = map (\<lambda>p. px p + py p) pts; d = map (\<lambda>p. py p - px p) pts
      in count_list s (Min (set s)) = 1 \<and> count_list s (Max (set s)) = 1
       \<and> count_list d (Min (set d)) = 1 \<and> count_list d (Max (set d)) = 1)"


text \<open>
  Three contours as an image could give them: a triangle, a card-shaped quadrilateral
  and a larger square.
\<close>

definition example_contours :: "contour list" where
  "example_contours =
     [\<lparr>contourArea = 100, approx = [Point 0 0, Point 9 0, Point 9 9], boundingRect = (10, 10)\<rparr>,
      \<lparr>contourArea = 5000, approx = [Point 10 10, Point 10 60, Point 90 60, Point 90 10],
        boundingRect = (81, 51)\<rparr>,
      \<lparr>contourArea = 9000, approx = [Point 0 0, Point 99 0, Point 99 99, Point 0 99],
        boundingRect = (100, 100)\<rparr>]"

text \<open>
  A request used in the concrete checks: a card 856 pixels wide (10 pixels per mm), one
  leaf marked base to tip (2000 pixels) and one traced through four points (3000 pixels).
\<close>

definition example_card :: "point list" where
  "example_card = [Point 0 0, Point 856 0, Point 856 428, Point 0 428]"

definition example_leaves :: "leaf list" where
  "example_leaves =
     [Base_Tip (Point 0 0) (Point 1200 1600),
      Points [Point 0 0, Point 0 1000, Point 0 2000, Point 0 3000]]"

text \<open>
  The card of the example with its corners given in another order, and a request with
  one leaf of 1796 pixels (17.96 cm before rounding).
\<close>

definition permuted_card :: "point list" where
  "permuted_card = [Point 0 0, Point 0 428, Point 856 428, Point 856 0]"






section \<open>Basic facts\<close>

subsection \<open>Distances and polylines\<close>

lemma segment_distance_dist: "segment_distance p q = dist (to_complex p) (to_complex q)"
  by (simp add: segment_distance_def to_complex_def dist_complex_def cmod_def power2_commute)

lemma segment_distance_horizontal: "segment_distance (Point a b) (Point c b) = \<bar>c - a\<bar>"
  by (simp add: segment_distance_def)

lemma segment_distance_vertical: "segment_distance (Point a b) (Point a c) = \<bar>c - b\<bar>"
  by (simp add: segment_distance_def)





subsection \<open>What a successful measurement returns\<close>

lemma measure_leaf_length_Inr:
  assumes "measure_leaf_length crop_quad decodes card_data leaf_data = Inr r"
  shows "length card_data = 4"
    and "1 \<le> length leaf_data" and "length leaf_data \<le> 3"
    and "validate_leaves 0 leaf_data = None"
    and "0 < pixels_per_mm card_data"
    and "leaf_lengths_cm r = rounded_lengths card_data leaf_data"
    and "avg_leaf_length_cm r = rounded_average (rounded_lengths card_data leaf_data)"
    and "stage r = stage_of (avg_leaf_length_cm r)"
    and "(confidence_status r, retake_message r) =
           confidence_of (leaf_lengths_cm r) (avg_leaf_length_cm r)"
  using assms
  by (auto simp: measure_leaf_length_def Let_def rounded_lengths_def rounded_average_def Suc_le_eq
           split: if_splits option.splits prod.splits)

subsection \<open>The example request\<close>

lemma segment_distance_1200_1600: "segment_distance (Point 0 0) (Point 1200 1600) = 2000"
  unfolding segment_distance_def by (rule real_sqrt_unique) simp_all

lemma pixels_per_mm_example: "pixels_per_mm example_card = 10"
  by (simp add: pixels_per_mm_def example_card_def segment_distance_horizontal CARD_WIDTH_MM_def)

lemma pixel_distance_example_curve:
  "pixel_distance (Points [Point 0 0, Point 0 1000, Point 0 2000, Point 0 3000]) = 3000"
  by (simp add: pixel_distance_def segment_distance_vertical
      upt_rec [of 0] upt_rec [of 1] upt_rec [of 2])

lemma std_dev_20_30: "std_dev [20, 30] 25 = 5"
  unfolding std_dev_def by (rule real_sqrt_unique) simp_all

lemma py_round1_20: "py_round1 20 = 20"
  by (simp add: py_round1_def round_half_even_def)

lemma py_round1_30: "py_round1 30 = 30"
  by (simp add: py_round1_def round_half_even_def)

lemma py_round1_25: "py_round1 25 = 25"
  by (simp add: py_round1_def round_half_even_def)

lemma measure_example:
  "measure_leaf_length None True example_card example_leaves =
     Inr \<lparr>leaf_lengths_cm = [20, 30], avg_leaf_length_cm = 25, stage = MATURE,
          confidence_status = LOW, retake_message = Some High_variation\<rparr>"
proof -
  have len: "length example_card = 4" "length example_leaves = 2"
    by (simp_all add: example_card_def example_leaves_def)
  have val: "validate_leaves 0 example_leaves = None"
    by (simp add: example_leaves_def)
  have straight: "pixel_distance (Base_Tip (Point 0 0) (Point 1200 1600)) = 2000"
    by (simp add: pixel_distance_def segment_distance_1200_1600)
  have lens: "map (\<lambda>lf. py_round1 (pixel_distance lf / 100)) example_leaves = [20, 30]"
    by (simp add: example_leaves_def pixel_distance_example_curve straight
        py_round1_20 py_round1_30)
  have conf: "confidence_of [20, 30] 25 = (LOW, Some High_variation)"
    by (simp add: confidence_of_def std_dev_20_30)
  show ?thesis
    unfolding measure_leaf_length_def
    by (simp add: len val crop_step_def pixels_per_mm_example lens Let_def py_round1_25 conf
        stage_of_def L1_def L2_def)
qed

section \<open>Maturity stage\<close>

text \<open>
  Claim C3. The stage reported by a measurement is a function of the reported average
  length alone, with inclusive lower boundaries: below 18.0 it is NOT_MATURE, from 18.0
  and below 25.0 it is INTERMEDIATE, from 25.0 on it is MATURE. In particular 17.9 gives
  NOT_MATURE, 18.0 and 24.9 give INTERMEDIATE, 25.0 gives MATURE.
\<close>

theorem maturity_stage:
  "(measure_leaf_length crop_quad decodes card_data leaf_data = Inr r \<longrightarrow>
      stage r = stage_of (avg_leaf_length_cm r))
   \<and> (a < 18.0 \<longrightarrow> stage_of a = NOT_MATURE)
   \<and> (18.0 \<le> a \<and> a < 25.0 \<longrightarrow> stage_of a = INTERMEDIATE)
   \<and> (25.0 \<le> a \<longrightarrow> stage_of a = MATURE)
   \<and> stage_of 17.9 = NOT_MATURE \<and> stage_of 18.0 = INTERMEDIATE
   \<and> stage_of 24.9 = INTERMEDIATE \<and> stage_of 25.0 = MATURE"
  using measure_leaf_length_Inr(8) [of crop_quad decodes card_data leaf_data r]
  by (simp add: stage_of_def L1_def L2_def)

theorem maturity_stage_witness:
  "measure_leaf_length None True example_card example_leaves =
     Inr \<lparr>leaf_lengths_cm = [20, 30], avg_leaf_length_cm = 25, stage = MATURE,
          confidence_status = LOW, retake_message = Some High_variation\<rparr>
   \<and> (25.0::real) \<le> 25 \<and> stage_of 25 = MATURE
   \<and> (17::real) < 18.0 \<and> stage_of 17 = NOT_MATURE
   \<and> (18.0::real) \<le> 20 \<and> (20::real) < 25.0 \<and> stage_of 20 = INTERMEDIATE"
  using maturity_stage [of None True example_card example_leaves
      "\<lparr>leaf_lengths_cm = [20, 30], avg_leaf_length_cm = 25, stage = MATURE,
          confidence_status = LOW, retake_message = Some High_variation\<rparr>" 25]
    maturity_stage [of None True example_card example_leaves
      "\<lparr>leaf_lengths_cm = [20, 30], avg_leaf_length_cm = 25, stage = MATURE,
          confidence_status = LOW, retake_message = Some High_variation\<rparr>" 17]
    maturity_stage [of None True example_card example_leaves
      "\<lparr>leaf_lengths_cm = [20, 30], avg_leaf_length_cm = 25, stage = MATURE,
          confidence_status = LOW, retake_message = Some High_variation\<rparr>" 20]
    measure_example
  by simp

section \<open>Pixel length and length in centimetres\<close>



section \<open>A traced curve is never shorter than the straight line\<close>



section \<open>Ordering the corners\<close>

subsection \<open>Selecting a point by its extreme key\<close>

lemma first_index_nth: "v \<in> set xs \<Longrightarrow> first_index xs v < length xs \<and> xs ! first_index xs v = v"
  by (induction xs) auto

lemma pick_in_set:
  assumes "v \<in> set (map f pts)"
  shows "pts ! first_index (map f pts) v \<in> set pts \<and> f (pts ! first_index (map f pts) v) = v"
proof -
  from first_index_nth [OF assms]
  have i: "first_index (map f pts) v < length pts" and e: "map f pts ! first_index (map f pts) v = v"
    by simp_all
  from i e show ?thesis by simp
qed

lemma count_le_1_unique:
  "count_list (map f xs) m \<le> 1 \<Longrightarrow> a \<in> set xs \<Longrightarrow> b \<in> set xs \<Longrightarrow> f a = m \<Longrightarrow> f b = m \<Longrightarrow> a = b"
proof (induction xs)
  case Nil
  then show ?case by simp
next
  case (Cons x xs)
  show ?case
  proof (cases "f x = m")
    case True
    with Cons.prems(1) have "count_list (map f xs) m = 0" by simp
    then have "m \<notin> set (map f xs)" by (simp add: count_list_0_iff)
    then have "\<forall>c\<in>set xs. f c \<noteq> m" by auto
    with Cons.prems show ?thesis by auto
  next
    case False
    with Cons.prems have "count_list (map f xs) m \<le> 1" "a \<in> set xs" "b \<in> set xs"
      by auto
    with Cons.IH Cons.prems show ?thesis by blast
  qed
qed

lemma pick_perm:
  assumes u: "count_list (map f pts) v = 1" and m: "mset qs = mset pts"
  shows "qs ! first_index (map f qs) v = pts ! first_index (map f pts) v"
proof -
  from u have vp: "v \<in> set (map f pts)"
    by (metis count_list_0_iff zero_neq_one)
  from m have s: "set qs = set pts" by (rule mset_eq_setD)
  then have vq: "v \<in> set (map f qs)" using vp by simp
  from pick_in_set [OF vp] pick_in_set [OF vq] s
  have "pts ! first_index (map f pts) v \<in> set pts" "f (pts ! first_index (map f pts) v) = v"
       "qs ! first_index (map f qs) v \<in> set pts" "f (qs ! first_index (map f qs) v) = v"
    by simp_all
  with count_le_1_unique [of f pts v] u show ?thesis by simp
qed

lemma order_points_perm:
  assumes l: "length pts = 4" and u: "unique_extremes pts" and m: "mset qs = mset pts"
  shows "order_points qs = order_points pts"
proof -
  from m have lq: "length qs = 4" using l by (metis size_mset)
  from m have s: "set qs = set pts" by (rule mset_eq_setD)
  have sets: "set (map f qs) = set (map f pts)" for f :: "point \<Rightarrow> real"
    using s by simp
  from u have u1: "count_list (map (\<lambda>p. px p + py p) pts) (Min (set (map (\<lambda>p. px p + py p) pts))) = 1"
    and u2: "count_list (map (\<lambda>p. px p + py p) pts) (Max (set (map (\<lambda>p. px p + py p) pts))) = 1"
    and u3: "count_list (map (\<lambda>p. py p - px p) pts) (Min (set (map (\<lambda>p. py p - px p) pts))) = 1"
    and u4: "count_list (map (\<lambda>p. py p - px p) pts) (Max (set (map (\<lambda>p. py p - px p) pts))) = 1"
    by (simp_all add: unique_extremes_def Let_def)
  show ?thesis
    unfolding order_points_def Let_def argmin_def argmax_def sets
    using l lq pick_perm [OF u1 m] pick_perm [OF u2 m] pick_perm [OF u3 m] pick_perm [OF u4 m]
    by simp
qed

lemma apply_quad_warp_perm:
  assumes "length pts = 4" "unique_extremes pts" "mset qs = mset pts"
  shows "apply_quad_warp qs = apply_quad_warp pts"
  unfolding apply_quad_warp_def order_points_perm [OF assms] ..






subsection \<open>Permutations of the corners\<close>

text \<open>
  Claim C2. \<^const>\<open>order_points\<close> is to return the same ordered corners for every
  permutation of the same 4 points, and \<^const>\<open>apply_quad_warp\<close> the same image; the
  docstrings take the points "in any order" and the tests shuffle them. The code does not
  do so when sums or differences tie, since \<^verbatim>\<open>np.argmin\<close> and \<^verbatim>\<open>np.argmax\<close> then follow
  the input order. For the square standing on one corner, given in two orders: the
  results differ, one of them names the corner \<open>(1, 0)\<close> twice and the other the corner
  \<open>(0, 1)\<close> twice, and the warps differ.
\<close>

theorem order_points_tied_square:
  "mset [Point 0 1, Point 1 0, Point 2 1, Point 1 2] = mset [Point 1 0, Point 2 1, Point 1 2, Point 0 1]
   \<and> order_points [Point 1 0, Point 2 1, Point 1 2, Point 0 1]
       = Inr [Point 1 0, Point 1 0, Point 2 1, Point 1 2]
   \<and> order_points [Point 0 1, Point 1 0, Point 2 1, Point 1 2]
       = Inr [Point 0 1, Point 1 0, Point 2 1, Point 0 1]
   \<and> order_points [Point 0 1, Point 1 0, Point 2 1, Point 1 2]
       \<noteq> order_points [Point 1 0, Point 2 1, Point 1 2, Point 0 1]
   \<and> apply_quad_warp [Point 0 1, Point 1 0, Point 2 1, Point 1 2]
       \<noteq> apply_quad_warp [Point 1 0, Point 2 1, Point 1 2, Point 0 1]"
  by (simp add: order_points_def argmin_def argmax_def Let_def apply_quad_warp_def)

text \<open>
  Without ties the input order does not matter: for four points whose smallest and
  largest sum and smallest and largest difference are each attained by one point only,
  \<^const>\<open>order_points\<close> returns the same ordered corners for every permutation of the
  points, and \<^const>\<open>apply_quad_warp\<close> makes the same warp.
\<close>

theorem order_points_permutation:
  "length pts = 4 \<Longrightarrow> unique_extremes pts \<Longrightarrow> mset qs = mset pts \<Longrightarrow>
     order_points qs = order_points pts \<and> apply_quad_warp qs = apply_quad_warp pts"
proof
  assume "length pts = 4" "unique_extremes pts" "mset qs = mset pts"
  then show "order_points qs = order_points pts"
    by (rule order_points_perm)
next
  assume "length pts = 4" "unique_extremes pts" "mset qs = mset pts"
  then show "apply_quad_warp qs = apply_quad_warp pts"
    by (rule apply_quad_warp_perm)
qed

theorem order_points_permutation_witness:
  "length [Point 100 100, Point 300 100, Point 300 300, Point 100 300] = 4
   \<and> unique_extremes [Point 100 100, Point 300 100, Point 300 300, Point 100 300]
   \<and> mset [Point 300 300, Point 100 100, Point 300 100, Point 100 300]
       = mset [Point 100 100, Point 300 100, Point 300 300, Point 100 300]
   \<and> order_points [Point 300 300, Point 100 100, Point 300 100, Point 100 300]
       = Inr [Point 100 100, Point 300 100, Point 300 300, Point 100 300]
   \<and> order_points [Point 300 300, Point 100 100, Point 300 100, Point 100 300]
       = order_points [Point 100 100, Point 300 100, Point 300 300, Point 100 300]
   \<and> apply_quad_warp [Point 300 300, Point 100 100, Point 300 100, Point 100 300]
       = apply_quad_warp [Point 100 100, Point 300 100, Point 300 300, Point 100 300]"
proof -
  have l: "length [Point 100 100, Point 300 100, Point 300 300, Point 100 300] = 4"
    by simp
  have u: "unique_extremes [Point 100 100, Point 300 100, Point 300 300, Point 100 300]"
    by (simp add: unique_extremes_def Let_def)
  have m: "mset [Point 300 300, Point 100 100, Point 300 100, Point 100 300]
       = mset [Point 100 100, Point 300 100, Point 300 300, Point 100 300]"
    by simp
  have o: "order_points [Point 300 300, Point 100 100, Point 300 100, Point 100 300]
       = Inr [Point 100 100, Point 300 100, Point 300 300, Point 100 300]"
    by (simp add: order_points_def argmin_def argmax_def Let_def)
  from order_points_permutation [OF l u m] l u m o show ?thesis by simp
qed

section \<open>The size of the warped image\<close>




section \<open>Errors of the warp\<close>




section \<open>Detection of the reference card\<close>




lemma detect_example:
  "detect_credit_card example_contours = Inr (Some [Point 10 10, Point 90 10, Point 90 60, Point 10 60])"
  by (simp add: detect_credit_card_def example_contours_def aspect_ratio_def
      TARGET_ASPECT_RATIO_def ASPECT_RATIO_TOLERANCE_def
      order_points_def argmin_def argmax_def Let_def)


section \<open>The calibration scale\<close>

lemma pixels_per_mm_permuted: "pixels_per_mm permuted_card = 5"
  by (simp add: pixels_per_mm_def permuted_card_def segment_distance_vertical CARD_WIDTH_MM_def)

lemma std_dev_40_60: "std_dev [40, 60] 50 = 10"
  unfolding std_dev_def by (rule real_sqrt_unique) simp_all

lemma measure_permuted:
  "measure_leaf_length None True permuted_card example_leaves =
     Inr \<lparr>leaf_lengths_cm = [40, 60], avg_leaf_length_cm = 50, stage = MATURE,
          confidence_status = LOW, retake_message = Some High_variation\<rparr>"
proof -
  have len: "length permuted_card = 4" "length example_leaves = 2"
    by (simp_all add: permuted_card_def example_leaves_def)
  have val: "validate_leaves 0 example_leaves = None"
    by (simp add: example_leaves_def)
  have straight: "pixel_distance (Base_Tip (Point 0 0) (Point 1200 1600)) = 2000"
    by (simp add: pixel_distance_def segment_distance_1200_1600)
  have r: "py_round1 40 = 40" "py_round1 60 = 60" "py_round1 50 = 50"
    by (simp_all add: py_round1_def round_half_even_def)
  have lens: "map (\<lambda>lf. py_round1 (pixel_distance lf / 50)) example_leaves = [40, 60]"
    by (simp add: example_leaves_def pixel_distance_example_curve straight r)
  have conf: "confidence_of [40, 60] 50 = (LOW, Some High_variation)"
    by (simp add: confidence_of_def std_dev_40_60)
  show ?thesis
    unfolding measure_leaf_length_def
    by (simp add: len val crop_step_def pixels_per_mm_permuted lens Let_def r conf
        stage_of_def L1_def L2_def)
qed

lemma measure_leaf_length_cong:
  assumes "length card_data = 4" "length card' = 4"
    and "pixels_per_mm card' = pixels_per_mm card_data"
  shows "measure_leaf_length crop_quad decodes card' leaf_data =
         measure_leaf_length crop_quad decodes card_data leaf_data"
  unfolding measure_leaf_length_def assms ..

text \<open>
  Claim C1, as stated, fails: \<^const>\<open>measure_leaf_length\<close> does not order the card
  corners; it measures from the first to the second corner as they are supplied. The
  same card with its corners in another order gives the scale 5 instead of 10 pixels per
  mm, and leaf lengths twice as long.
\<close>

theorem calibration_order_counterexample:
  "mset permuted_card = mset example_card
   \<and> order_points permuted_card = Inr example_card
   \<and> segment_distance (example_card ! 0) (example_card ! 1) / 85.60 = 10
   \<and> pixels_per_mm permuted_card = 5
   \<and> pixels_per_mm example_card = 10
   \<and> map_sum id leaf_lengths_cm (measure_leaf_length None True example_card example_leaves)
       = Inr [20, 30]
   \<and> map_sum id leaf_lengths_cm (measure_leaf_length None True permuted_card example_leaves)
       = Inr [40, 60]"
proof -
  have "mset permuted_card = mset example_card"
    by (simp add: permuted_card_def example_card_def)
  moreover have "order_points permuted_card = Inr example_card"
    by (simp add: permuted_card_def example_card_def order_points_def argmin_def argmax_def Let_def)
  moreover have "segment_distance (example_card ! 0) (example_card ! 1) / 85.60 = 10"
    by (simp add: example_card_def segment_distance_horizontal)
  ultimately show ?thesis
    by (simp add: pixels_per_mm_permuted pixels_per_mm_example measure_example measure_permuted)
qed

text \<open>
  Claim C1, amended. The pixels-per-mm scale equals the Euclidean distance between the
  first and the second supplied card corner divided by 85.60, and the reported lengths
  are computed with that scale. Two lists of 4 card corners with the same first two
  points give the same scale and the same result. When the corners are supplied in the
  order that \<^const>\<open>order_points\<close> returns, the scale is the distance between the ordered
  top-left and top-right corners divided by 85.60.
\<close>

theorem calibration_scale:
  "pixels_per_mm card_data
     = dist (to_complex (card_data ! 0)) (to_complex (card_data ! 1)) / 85.60
   \<and> (measure_leaf_length crop_quad decodes card_data leaf_data = Inr r \<longrightarrow>
        0 < pixels_per_mm card_data
        \<and> leaf_lengths_cm r =
            map (\<lambda>lf. py_round1 (pixel_distance lf / pixels_per_mm card_data / 10)) leaf_data)
   \<and> (length card_data = 4 \<and> length card' = 4
        \<and> card' ! 0 = card_data ! 0 \<and> card' ! 1 = card_data ! 1 \<longrightarrow>
        pixels_per_mm card' = pixels_per_mm card_data
        \<and> measure_leaf_length crop_quad decodes card' leaf_data
            = measure_leaf_length crop_quad decodes card_data leaf_data)
   \<and> (order_points card_data = Inr ordered \<and> ordered = card_data \<longrightarrow>
        pixels_per_mm card_data
          = dist (to_complex (ordered ! 0)) (to_complex (ordered ! 1)) / 85.60)"
proof (intro conjI impI)
  show ppm: "pixels_per_mm card_data
     = dist (to_complex (card_data ! 0)) (to_complex (card_data ! 1)) / 85.60"
    by (simp add: pixels_per_mm_def CARD_WIDTH_MM_def segment_distance_dist)
  assume "order_points card_data = Inr ordered \<and> ordered = card_data"
  with ppm show "pixels_per_mm card_data
          = dist (to_complex (ordered ! 0)) (to_complex (ordered ! 1)) / 85.60"
    by simp
next
  assume m: "measure_leaf_length crop_quad decodes card_data leaf_data = Inr r"
  from measure_leaf_length_Inr(5) [OF m] show "0 < pixels_per_mm card_data" .
  from measure_leaf_length_Inr(6) [OF m]
  show "leaf_lengths_cm r =
            map (\<lambda>lf. py_round1 (pixel_distance lf / pixels_per_mm card_data / 10)) leaf_data"
    by (simp add: rounded_lengths_def)
next
  assume a: "length card_data = 4 \<and> length card' = 4
        \<and> card' ! 0 = card_data ! 0 \<and> card' ! 1 = card_data ! 1"
  then show e: "pixels_per_mm card' = pixels_per_mm card_data"
    by (simp add: pixels_per_mm_def)
  with a show "measure_leaf_length crop_quad decodes card' leaf_data
            = measure_leaf_length crop_quad decodes card_data leaf_data"
    by (simp add: measure_leaf_length_cong)
qed

theorem calibration_scale_witness:
  "measure_leaf_length None True example_card example_leaves =
     Inr \<lparr>leaf_lengths_cm = [20, 30], avg_leaf_length_cm = 25, stage = MATURE,
          confidence_status = LOW, retake_message = Some High_variation\<rparr>
   \<and> pixels_per_mm example_card = 10
   \<and> dist (to_complex (Point 0 0)) (to_complex (Point 856 0)) / 85.60 = 10
   \<and> order_points example_card = Inr example_card
   \<and> length example_card = 4
   \<and> length [Point 0 0, Point 856 0, Point 900 500, Point 7 400] = 4
   \<and> measure_leaf_length None True [Point 0 0, Point 856 0, Point 900 500, Point 7 400]
        example_leaves
      = measure_leaf_length None True example_card example_leaves"
proof -
  have o: "order_points example_card = Inr example_card"
    by (simp add: example_card_def order_points_def argmin_def argmax_def Let_def)
  from calibration_scale [of example_card None True example_leaves
      "\<lparr>leaf_lengths_cm = [20, 30], avg_leaf_length_cm = 25, stage = MATURE,
          confidence_status = LOW, retake_message = Some High_variation\<rparr>"
      "[Point 0 0, Point 856 0, Point 900 500, Point 7 400]" example_card]
    measure_example pixels_per_mm_example o
  show ?thesis
    by (simp add: example_card_def)
qed

section \<open>Aggregation of the rounded lengths\<close>




section \<open>Confidence status\<close>

subsection \<open>Rounding and the thresholds on whole tenths\<close>
















subsection \<open>More example requests\<close>








subsection \<open>The rule\<close>



end
